theory Spec2Isabelle
  imports Main
begin

section \<open>JavaScript strings\<close>

text \<open>
  A JavaScript string is a sequence of UTF-16 code units; a code unit is modelled by its
  number. \<open>lit\<close> turns a literal of the source (all of them are ASCII) into code units.
\<close>

type_synonym jsstring = "nat list"

definition lit :: "string \<Rightarrow> jsstring" where
  "lit s = map of_char s"

text \<open>
  \<open>String.prototype.trim\<close> removes white space and line terminators from both ends:
  TAB, LF, VT, FF, CR, SP, NBSP, U+1680, U+2000 to U+200A, U+2028, U+2029, U+202F, U+205F,
  U+3000 and U+FEFF.
\<close>

definition is_space :: "nat \<Rightarrow> bool" where
  "is_space c =
     (c = 9 \<or> c = 10 \<or> c = 11 \<or> c = 12 \<or> c = 13 \<or> c = 32 \<or> c = 160 \<or> c = 5760 \<or>
      (8192 \<le> c \<and> c \<le> 8202) \<or> c = 8232 \<or> c = 8233 \<or> c = 8239 \<or> c = 8287 \<or>
      c = 12288 \<or> c = 65279)"

definition trim :: "jsstring \<Rightarrow> jsstring" where
  "trim s = rev (dropWhile is_space (rev (dropWhile is_space s)))"

text \<open>
  \<open>BigInt(goalInput)\<close> is applied to a string that has passed \<open>/^\d+$/\<close>, where it
  cannot throw and yields the decimal value of the digits.
\<close>

definition BigInt :: "jsstring \<Rightarrow> int" where
  "BigInt s = foldl (\<lambda>v c. 10 * v + int (c - 48)) 0 s"

section \<open>The regular expressions of the source\<close>

text \<open>
  The two patterns of \<open>Board.tsx\<close> are built from character classes, \<open>{n}\<close>, greedy
  \<open>*\<close> and \<open>+\<close> on a class, capture groups and the anchors. Neither has the \<open>m\<close>,
  \<open>s\<close>, \<open>i\<close> or \<open>u\<close> flag: \<open>^\<close> matches at index 0 only, \<open>$\<close> at the end of the
  input only, and \<open>.\<close> is any code unit but LF, CR, U+2028 and U+2029.
\<close>

datatype atom = Hex | Digit | Dot

fun atom_ok :: "atom \<Rightarrow> nat \<Rightarrow> bool" where
  "atom_ok Hex c = ((65 \<le> c \<and> c \<le> 70) \<or> (97 \<le> c \<and> c \<le> 102) \<or> (48 \<le> c \<and> c \<le> 57))"
| "atom_ok Digit c = (48 \<le> c \<and> c \<le> 57)"
| "atom_ok Dot c = (c \<noteq> 10 \<and> c \<noteq> 13 \<and> c \<noteq> 8232 \<and> c \<noteq> 8233)"

datatype rx = Bol | Eol | Times nat atom | Star atom | Plus atom | Group rx | Seq rx rx

text \<open>\<open>exactly a n s\<close>: exactly \<open>n\<close> code units of class \<open>a\<close>; the rest of the input.\<close>

fun exactly :: "atom \<Rightarrow> nat \<Rightarrow> jsstring \<Rightarrow> jsstring option" where
  "exactly a 0 s = Some s"
| "exactly a (Suc n) [] = None"
| "exactly a (Suc n) (c # s) = (if atom_ok a c then exactly a n s else None)"

text \<open>
  \<open>star a s\<close>: the inputs left by a greedy \<open>a*\<close>, in the order the backtracking matcher
  tries them, the longest run first.
\<close>

fun star :: "atom \<Rightarrow> jsstring \<Rightarrow> jsstring list" where
  "star a [] = [[]]"
| "star a (c # s) = (if atom_ok a c then star a s else []) @ [c # s]"

text \<open>
  A configuration of the matcher: the index reached, the input from there on, and the
  captures closed so far (groups that do not nest close in the order they are numbered).
  \<open>step r cf\<close> lists the configurations \<open>r\<close> can lead to, in backtracking order.
\<close>

type_synonym conf = "nat \<times> jsstring \<times> jsstring list"

fun step :: "rx \<Rightarrow> conf \<Rightarrow> conf list" where
  "step Bol (i, s, g) = (if i = 0 then [(i, s, g)] else [])"
| "step Eol (i, s, g) = (if s = [] then [(i, s, g)] else [])"
| "step (Times n a) (i, s, g) = (case exactly a n s of None \<Rightarrow> [] | Some r \<Rightarrow> [(i + n, r, g)])"
| "step (Star a) (i, s, g) = map (\<lambda>r. (i + (length s - length r), r, g)) (star a s)"
| "step (Plus a) (i, s, g) =
     (case s of
        [] \<Rightarrow> []
      | c # s' \<Rightarrow>
          if atom_ok a c then map (\<lambda>r. (i + (length s - length r), r, g)) (star a s') else [])"
| "step (Group r) (i, s, g) =
     map (\<lambda>(j, s', g'). (j, s', g' @ [take (j - i) s])) (step r (i, s, g))"
| "step (Seq r1 r2) cf = concat (map (step r2) (step r1 cf))"

text \<open>The first match of \<open>r\<close> that starts at index \<open>i\<close>, where \<open>s\<close> is the input from \<open>i\<close> on.\<close>

definition match_here :: "rx \<Rightarrow> nat \<Rightarrow> jsstring \<Rightarrow> (nat \<times> jsstring list) option" where
  "match_here r i s = (case step r (i, s, []) of [] \<Rightarrow> None | (j, _, g) # _ \<Rightarrow> Some (j, g))"

text \<open>\<open>RegExp.prototype.test\<close>: some start index from 0 to the length gives a match.\<close>

definition regex_test :: "rx \<Rightarrow> jsstring \<Rightarrow> bool" where
  "regex_test r s = list_ex (\<lambda>i. match_here r i (drop i s) \<noteq> None) [0..<Suc (length s)]"

text \<open>
  A replacement string is literal text and group references \<open>$n\<close> (one digit); a
  reference to a group the pattern does not have stays as it is written.
\<close>

datatype piece = Lit jsstring | Ref nat

fun expand :: "piece list \<Rightarrow> jsstring list \<Rightarrow> jsstring" where
  "expand [] g = []"
| "expand (Lit l # t) g = l @ expand t g"
| "expand (Ref n # t) g =
     (if 0 < n \<and> n \<le> length g then g ! (n - 1) else [36, 48 + n]) @ expand t g"

text \<open>
  \<open>String.prototype.replace\<close> with a pattern that has the \<open>g\<close> flag: the input is
  scanned from index 0; a match is replaced and the scan goes on where it ended (one
  code unit further after an empty match); a code unit where no match starts is kept.
  \<open>replace_scan r t i k s\<close>: \<open>s\<close> is the input from index \<open>i\<close> on, of which the first \<open>k\<close>
  code units belong to the match before.
\<close>

fun replace_scan :: "rx \<Rightarrow> piece list \<Rightarrow> nat \<Rightarrow> nat \<Rightarrow> jsstring \<Rightarrow> jsstring" where
  "replace_scan r t i k [] =
     (if k = 0 then (case match_here r i [] of None \<Rightarrow> [] | Some (j, g) \<Rightarrow> expand t g) else [])"
| "replace_scan r t i (Suc k) (c # s) = replace_scan r t (Suc i) k s"
| "replace_scan r t i 0 (c # s) =
     (case match_here r i (c # s) of
        None \<Rightarrow> c # replace_scan r t (Suc i) 0 s
      | Some (j, g) \<Rightarrow>
          expand t g @
          (if j = i then c # replace_scan r t (Suc i) 0 s
           else replace_scan r t (Suc i) (j - Suc i) s))"

definition replace_all :: "rx \<Rightarrow> piece list \<Rightarrow> jsstring \<Rightarrow> jsstring" where
  "replace_all r t s = replace_scan r t 0 0 s"

text \<open>\<open>/^\d+$/\<close> of \<open>onPostMessage\<close>.\<close>

definition goal_rx :: rx where
  "goal_rx = Seq Bol (Seq (Plus Digit) Eol)"

text \<open>\<open>/^[A-Fa-f0-9]{6}([A-Fa-f0-9]{8}).*([A-Fa-f0-9]{8})$/g\<close> and \<open>'$1...$2'\<close>.\<close>

definition address_rx :: rx where
  "address_rx =
     Seq Bol (Seq (Times 6 Hex) (Seq (Group (Times 8 Hex))
       (Seq (Star Dot) (Seq (Group (Times 8 Hex)) Eol))))"

definition address_replacement :: "piece list" where
  "address_replacement = [Ref 1, Lit (lit ''...''), Ref 2]"

section \<open>toShortFormatContractAddress\<close>

text \<open>
  The function returns a \<open>span\<close> whose text is \<open>0x\<close> and the replaced address, or
  \<open>undefined\<close> when the address is \<open>undefined\<close> or the empty string (both are falsy).
  The model returns the text of the span.
\<close>

definition toShortFormatContractAddress :: "jsstring option \<Rightarrow> jsstring option" where
  "toShortFormatContractAddress contractAddress =
     (case contractAddress of
        None \<Rightarrow> None
      | Some a \<Rightarrow>
          if a = [] then None
          else Some (lit ''0x'' @ replace_all address_rx address_replacement a))"

text \<open>
  The shape the address pattern accepts, written out: 14 hexadecimal digits, then any
  code units other than line terminators, then 8 hexadecimal digits at the end.
\<close>

definition address_shape :: "jsstring \<Rightarrow> bool" where
  "address_shape s =
     (22 \<le> length s \<and> list_all (atom_ok Hex) (take 14 s) \<and>
      list_all (atom_ok Dot) (take (length s - 22) (drop 14 s)) \<and>
      list_all (atom_ok Hex) (drop (length s - 8) s))"

section \<open>The data of the Board component\<close>

text \<open>
  A value that is thrown or that rejects a promise: an \<open>Error\<close> with its message, or any
  other value, given by what \<open>String(...)\<close> makes of it. The handlers show
  \<open>error instanceof Error ? error.message : String(error)\<close>.
\<close>

datatype thrown = ErrorObject jsstring | OtherValue jsstring

fun error_text :: "thrown \<Rightarrow> jsstring" where
  "error_text (ErrorObject m) = m"
| "error_text (OtherValue v) = v"

text \<open>
  Modelled from the spec: the declaration of \<open>DeployedBBoardAPI\<close> is imported by
  \<open>Board.tsx\<close> from a module that is not among the sources at hand. The component
  reads its \<open>deployedContractAddress\<close>; \<open>api_id\<close> stands for the identity of the object.
\<close>

record DeployedBBoardAPI =
  api_id :: nat
  deployedContractAddress :: jsstring

text \<open>
  Modelled from the spec: the declaration of \<open>BoardDeployment\<close> is missing as well. The
  component reads its \<open>status\<close> (\<open>in-progress\<close>, \<open>failed\<close> or \<open>deployed\<close>), the
  \<open>error.message\<close> of a failed deployment and the \<open>api\<close> of a deployed one.
\<close>

datatype BoardDeployment = InProgress | Failed jsstring | Deployed DeployedBBoardAPI

text \<open>
  Modelled from the spec: the enumeration \<open>State\<close> of the contract, of which the
  component names \<open>VACANT\<close> and \<open>OCCUPIED\<close>.
\<close>

datatype State = VACANT | OCCUPIED

text \<open>
  Modelled from the spec: the declaration of \<open>BBoardDerivedState\<close>. The component reads
  \<open>state\<close>, \<open>title\<close>, \<open>goal\<close>, \<open>message\<close> and \<open>isOwner\<close>.
\<close>

record BBoardDerivedState =
  state :: State
  title :: jsstring
  goal :: int
  message :: jsstring
  isOwner :: bool

text \<open>The arguments of \<open>WalletBuilder.build\<close>, and a wallet as the identity of the object built.\<close>

datatype NetworkId = Undeployed | DevNet | TestNet | MainNet

record wallet_config =
  indexerUri :: jsstring
  indexerWsUri :: jsstring
  proverServerUri :: jsstring
  substrateNodeUri :: jsstring
  seed :: jsstring
  networkId :: NetworkId

type_synonym wallet = nat

text \<open>The eight \<open>useState\<close> cells of the component, as one render sees them.\<close>

record hooks =
  boardDeployment :: "BoardDeployment option"
  deployedBoardAPI :: "DeployedBBoardAPI option"
  errorMessage :: "jsstring option"
  boardState :: "BBoardDerivedState option"
  messagePrompt :: "jsstring option"
  titlePrompt :: "jsstring option"
  goalPrompt :: "jsstring option"
  isWorking :: bool

text \<open>The calls the component makes on its collaborators.\<close>

datatype call =
    Resolve "jsstring option"
  | GetWalletAddress
  | Post DeployedBBoardAPI jsstring jsstring int jsstring
  | WalletBuild wallet_config
  | WalletStart wallet
  | ContributeWithWallet DeployedBBoardAPI wallet int
  | TakeDown DeployedBBoardAPI
  | ClipboardWriteText jsstring
  | SubscribeState DeployedBBoardAPI

text \<open>
  What a handler or an effect does, in program order: calls of the state setters, calls
  on collaborators, and the one \<open>console.log\<close>.
\<close>

datatype effect =
    SetBoardDeployment BoardDeployment
  | SetDeployedBoardAPI DeployedBBoardAPI
  | SetErrorMessage jsstring
  | SetBoardState BBoardDerivedState
  | SetMessagePrompt jsstring
  | SetTitlePrompt jsstring
  | SetGoalPrompt jsstring
  | SetIsWorking bool
  | Invoke call
  | ConsoleLog jsstring

fun apply_effect :: "effect \<Rightarrow> hooks \<Rightarrow> hooks" where
  "apply_effect (SetBoardDeployment d) h = h\<lparr>boardDeployment := Some d\<rparr>"
| "apply_effect (SetDeployedBoardAPI a) h = h\<lparr>deployedBoardAPI := Some a\<rparr>"
| "apply_effect (SetErrorMessage m) h = h\<lparr>errorMessage := Some m\<rparr>"
| "apply_effect (SetBoardState b) h = h\<lparr>boardState := Some b\<rparr>"
| "apply_effect (SetMessagePrompt v) h = h\<lparr>messagePrompt := Some v\<rparr>"
| "apply_effect (SetTitlePrompt v) h = h\<lparr>titlePrompt := Some v\<rparr>"
| "apply_effect (SetGoalPrompt v) h = h\<lparr>goalPrompt := Some v\<rparr>"
| "apply_effect (SetIsWorking b) h = h\<lparr>isWorking := b\<rparr>"
| "apply_effect (Invoke c) h = h"
| "apply_effect (ConsoleLog v) h = h"

definition run :: "effect list \<Rightarrow> hooks \<Rightarrow> hooks" where
  "run es h = fold apply_effect es h"

text \<open>The collaborator calls of a trace, in order.\<close>

fun calls :: "effect list \<Rightarrow> call list" where
  "calls [] = []"
| "calls (Invoke c # es) = c # calls es"
| "calls (e # es) = calls es"

text \<open>
  Each collaborator call of a trace with the value the working flag has when the call is
  made, that is, after the setter calls before it; \<open>w\<close> is the flag when the trace starts.
\<close>

fun calls_with_flag :: "bool \<Rightarrow> effect list \<Rightarrow> (call \<times> bool) list" where
  "calls_with_flag w [] = []"
| "calls_with_flag w (SetIsWorking b # es) = calls_with_flag b es"
| "calls_with_flag w (Invoke c # es) = (c, w) # calls_with_flag w es"
| "calls_with_flag w (e # es) = calls_with_flag w es"

section \<open>The callbacks\<close>

definition fill_in_all_fields :: jsstring where
  "fill_in_all_fields = lit ''Please fill in all fields (title, goal, and message)''"

definition valid_goal_message :: jsstring where
  "valid_goal_message = lit ''Please enter a valid positive integer for the funding goal''"

definition unexpected_error :: jsstring where
  "unexpected_error = lit ''Encountered an unexpected error.''"

text \<open>\<open>!v\<close> for \<open>v\<close> a string or \<open>undefined\<close>.\<close>

definition falsy :: "jsstring option \<Rightarrow> bool" where
  "falsy v = (case v of None \<Rightarrow> True | Some s \<Rightarrow> s = [])"

text \<open>
  An asynchronous handler is a function of the render scope it closes over and of what
  its awaited calls come to: \<open>Inl\<close> is a rejection (or a throw), \<open>Inr\<close> the value.
\<close>

record post_outcomes =
  getWalletAddress_result :: "thrown + jsstring"
  post_result :: "thrown + unit"

record send_outcomes =
  build_result :: "thrown + wallet"
  start_result :: "thrown + unit"
  contributeWithWallet_result :: "thrown + unit"

definition onCreateBoard :: "effect list" where
  "onCreateBoard = [Invoke (Resolve None)]"

definition onJoinBoard :: "jsstring \<Rightarrow> effect list" where
  "onJoinBoard contractAddress = [Invoke (Resolve (Some contractAddress))]"

text \<open>
  \<open>onPostMessage\<close>, lines 90 to 116. The two early returns come before the \<open>try\<close>, so
  they skip its \<open>finally\<close>.
\<close>

definition onPostMessage :: "hooks \<Rightarrow> post_outcomes \<Rightarrow> effect list" where
  "onPostMessage scope out =
     (if falsy (titlePrompt scope) \<or> falsy (messagePrompt scope) \<or> falsy (goalPrompt scope)
      then [SetErrorMessage fill_in_all_fields]
      else
        let goalInput = trim (case goalPrompt scope of None \<Rightarrow> [] | Some g \<Rightarrow> g) in
        if goalInput = [] \<or> \<not> regex_test goal_rx goalInput
        then [SetErrorMessage valid_goal_message]
        else
          (case deployedBoardAPI scope of
             None \<Rightarrow> []
           | Some api \<Rightarrow>
               Invoke GetWalletAddress #
               (case getWalletAddress_result out of
                  Inl error \<Rightarrow> [SetErrorMessage (error_text error)]
                | Inr walletAddress \<Rightarrow>
                    [ConsoleLog walletAddress,
                     SetIsWorking True,
                     Invoke (Post api
                       (case titlePrompt scope of None \<Rightarrow> [] | Some v \<Rightarrow> v)
                       (case messagePrompt scope of None \<Rightarrow> [] | Some v \<Rightarrow> v)
                       (BigInt goalInput) walletAddress)] @
                    (case post_result out of
                       Inl error \<Rightarrow> [SetErrorMessage (error_text error)]
                     | Inr _ \<Rightarrow> [])))
          @ [SetIsWorking False])"

text \<open>The arguments \<open>onSendToken\<close> passes to \<open>WalletBuilder.build\<close>, lines 122 to 127.\<close>

definition testnet_config :: wallet_config where
  "testnet_config =
     \<lparr>indexerUri = lit ''https://indexer.testnet-02.midnight.network/api/v1/graphql'',
      indexerWsUri = lit ''wss://indexer.testnet-02.midnight.network/api/v1/graphql/ws'',
      proverServerUri = lit ''http://localhost:6300'',
      substrateNodeUri = lit ''https://rpc.testnet-02.midnight.network'',
      seed = lit ''0000000000000000000000000000000000000000000000000000000000000000'',
      networkId = TestNet\<rparr>"

text \<open>\<open>onSendToken\<close>, lines 118 to 139.\<close>

definition onSendToken :: "hooks \<Rightarrow> send_outcomes \<Rightarrow> effect list" where
  "onSendToken scope out =
     (case deployedBoardAPI scope of
        None \<Rightarrow> []
      | Some api \<Rightarrow>
          Invoke (WalletBuild testnet_config) #
          (case build_result out of
             Inl error \<Rightarrow> [SetErrorMessage (error_text error)]
           | Inr wallet \<Rightarrow>
               Invoke (WalletStart wallet) #
               (case start_result out of
                  Inl error \<Rightarrow> [SetErrorMessage (error_text error)]
                | Inr _ \<Rightarrow>
                    Invoke (ContributeWithWallet api wallet 1) #
                    (case contributeWithWallet_result out of
                       Inl error \<Rightarrow> [SetErrorMessage (error_text error)]
                     | Inr _ \<Rightarrow> []))))
     @ [SetIsWorking False]"

text \<open>\<open>onDeleteMessage\<close>, lines 143 to 154.\<close>

definition onDeleteMessage :: "hooks \<Rightarrow> thrown + unit \<Rightarrow> effect list" where
  "onDeleteMessage scope takeDown_result =
     (case deployedBoardAPI scope of
        None \<Rightarrow> []
      | Some api \<Rightarrow>
          [SetIsWorking True, Invoke (TakeDown api)] @
          (case takeDown_result of
             Inl error \<Rightarrow> [SetErrorMessage (error_text error)]
           | Inr _ \<Rightarrow> []))
     @ [SetIsWorking False]"

text \<open>
  \<open>onCopyContractAddress\<close>, lines 156 to 160: there is no \<open>try\<close>, so a rejection
  changes nothing in the component.
\<close>

definition onCopyContractAddress :: "hooks \<Rightarrow> effect list" where
  "onCopyContractAddress scope =
     (case deployedBoardAPI scope of
        None \<Rightarrow> []
      | Some api \<Rightarrow> [Invoke (ClipboardWriteText (deployedContractAddress api))])"

text \<open>
  The effect of lines 178 to 202, which runs when \<open>boardDeployment\<close> has changed.
\<close>

definition onBoardDeployment :: "BoardDeployment option \<Rightarrow> effect list" where
  "onBoardDeployment d =
     (case d of
        None \<Rightarrow> []
      | Some InProgress \<Rightarrow> []
      | Some (Failed m) \<Rightarrow>
          [SetIsWorking False,
           SetErrorMessage (if length m \<noteq> 0 then m else unexpected_error)]
      | Some (Deployed api) \<Rightarrow>
          [SetIsWorking False, SetDeployedBoardAPI api, Invoke (SubscribeState api)])"

section \<open>What is rendered\<close>

text \<open>
  \<open>supplied\<close> is whether the \<open>boardDeployment$\<close> prop is given. The working indicator
  and the error overlay are the two backdrops of lines 212 to 226; the three action
  buttons of lines 323 to 348 are rendered when \<open>deployedBoardAPI\<close> is set.
\<close>

definition working_indicator_visible :: "bool \<Rightarrow> hooks \<Rightarrow> bool" where
  "working_indicator_visible supplied h = (supplied \<and> isWorking h)"

definition error_overlay_open :: "bool \<Rightarrow> hooks \<Rightarrow> bool" where
  "error_overlay_open supplied h = (supplied \<and> \<not> falsy (errorMessage h))"

definition actions_rendered :: "bool \<Rightarrow> hooks \<Rightarrow> bool" where
  "actions_rendered supplied h = (supplied \<and> deployedBoardAPI h \<noteq> None)"

text \<open>\<open>boardState?.state === s\<close>.\<close>

definition state_is :: "hooks \<Rightarrow> State \<Rightarrow> bool" where
  "state_is h s = (case boardState h of None \<Rightarrow> False | Some b \<Rightarrow> state b = s)"

definition send_tokens_disabled :: "hooks \<Rightarrow> bool" where
  "send_tokens_disabled h = (state_is h OCCUPIED \<or> falsy (goalPrompt h))"

definition post_message_disabled :: "hooks \<Rightarrow> bool" where
  "post_message_disabled h = (state_is h OCCUPIED \<or> falsy (messagePrompt h))"

definition take_down_disabled :: "hooks \<Rightarrow> bool" where
  "take_down_disabled h =
     (state_is h VACANT \<or>
      (state_is h OCCUPIED \<and> \<not> (case boardState h of None \<Rightarrow> False | Some b \<Rightarrow> isOwner b)))"

definition take_down_enabled :: "bool \<Rightarrow> hooks \<Rightarrow> bool" where
  "take_down_enabled supplied h = (actions_rendered supplied h \<and> \<not> take_down_disabled h)"

definition text_fields_rendered :: "bool \<Rightarrow> hooks \<Rightarrow> bool" where
  "text_fields_rendered supplied h =
     (supplied \<and> (case boardState h of None \<Rightarrow> False | Some b \<Rightarrow> state b \<noteq> OCCUPIED))"

definition card_title :: "hooks \<Rightarrow> jsstring" where
  "card_title h =
     (case toShortFormatContractAddress
             (case deployedBoardAPI h of None \<Rightarrow> None | Some a \<Rightarrow> Some (deployedContractAddress a)) of
        None \<Rightarrow> lit ''Loading...''
      | Some t \<Rightarrow> t)"

section \<open>The component as a state machine\<close>

text \<open>
  A mounted component: the prop, the state cells of the latest render, and the render
  whose values the memoized \<open>onPostMessage\<close> closes over. \<open>useCallback\<close> makes a new
  closure only in a render where one of its dependencies has changed; for
  \<open>onPostMessage\<close> (line 116) the ones that can change are \<open>deployedBoardAPI\<close> and
  \<open>messagePrompt\<close>. The other callbacks read \<open>deployedBoardAPI\<close> only, which is among
  their dependencies, so they see the latest render.
\<close>

record component =
  supplied :: bool
  current :: hooks
  postScope :: hooks

definition mount :: "bool \<Rightarrow> component" where
  "mount s =
     (let h = \<lparr>boardDeployment = None, deployedBoardAPI = None, errorMessage = None,
               boardState = None, messagePrompt = None, titlePrompt = None,
               goalPrompt = None, isWorking = s\<rparr>
      in \<lparr>supplied = s, current = h, postScope = h\<rparr>)"

datatype event =
    DeploymentEmits BoardDeployment
  | StateEmits BBoardDerivedState
  | TitleChange jsstring
  | GoalChange jsstring
  | MessageChange jsstring
  | ClickCreate
  | ClickJoin jsstring
  | ClickPost post_outcomes
  | ClickSend send_outcomes
  | ClickDelete "thrown + unit"
  | ClickCopy

fun effects_of :: "event \<Rightarrow> component \<Rightarrow> effect list" where
  "effects_of (DeploymentEmits d) c = SetBoardDeployment d # onBoardDeployment (Some d)"
| "effects_of (StateEmits b) c = [SetBoardState b]"
| "effects_of (TitleChange v) c = [SetTitlePrompt v]"
| "effects_of (GoalChange v) c = [SetGoalPrompt v]"
| "effects_of (MessageChange v) c = [SetMessagePrompt v]"
| "effects_of ClickCreate c = onCreateBoard"
| "effects_of (ClickJoin a) c = onJoinBoard a"
| "effects_of (ClickPost out) c = onPostMessage (postScope c) out"
| "effects_of (ClickSend out) c = onSendToken (current c) out"
| "effects_of (ClickDelete out) c = onDeleteMessage (current c) out"
| "effects_of ClickCopy c = onCopyContractAddress (current c)"

definition rerender :: "component \<Rightarrow> hooks \<Rightarrow> component" where
  "rerender c h =
     c\<lparr>current := h,
       postScope :=
         (if deployedBoardAPI h \<noteq> deployedBoardAPI (current c) \<or>
             messagePrompt h \<noteq> messagePrompt (current c)
          then h else postScope c)\<rparr>"

definition fire :: "event \<Rightarrow> component \<Rightarrow> component" where
  "fire e c = rerender c (run (effects_of e c) (current c))"

text \<open>
  Which events the component can receive: an emission needs the subscription it arrives
  on, a user action needs the control it comes from to be rendered and not disabled.
\<close>

fun possible :: "event \<Rightarrow> component \<Rightarrow> bool" where
  "possible (DeploymentEmits d) c = supplied c"
| "possible (StateEmits b) c =
     (case boardDeployment (current c) of Some (Deployed a) \<Rightarrow> True | _ \<Rightarrow> False)"
| "possible (TitleChange v) c = text_fields_rendered (supplied c) (current c)"
| "possible (GoalChange v) c = text_fields_rendered (supplied c) (current c)"
| "possible (MessageChange v) c = text_fields_rendered (supplied c) (current c)"
| "possible ClickCreate c = (\<not> supplied c)"
| "possible (ClickJoin a) c = (\<not> supplied c)"
| "possible (ClickPost out) c =
     (actions_rendered (supplied c) (current c) \<and> \<not> post_message_disabled (current c))"
| "possible (ClickSend out) c =
     (actions_rendered (supplied c) (current c) \<and> \<not> send_tokens_disabled (current c))"
| "possible (ClickDelete out) c = take_down_enabled (supplied c) (current c)"
| "possible ClickCopy c =
     (supplied c \<and>
      (case deployedBoardAPI (current c) of
         None \<Rightarrow> False
       | Some a \<Rightarrow> deployedContractAddress a \<noteq> []))"

text \<open>A run of events, each possible when it arrives; \<open>None\<close> when one is not.\<close>

fun fire_all :: "event list \<Rightarrow> component \<Rightarrow> component option" where
  "fire_all [] c = Some c"
| "fire_all (e # es) c = (if possible e c then fire_all es (fire e c) else None)"

text \<open>
  The component while it waits for its deployment: it was mounted with a stream, the
  working flag is up, and neither an API handle nor a board state has arrived. An event
  settles the deployment when it is an emission of \<open>failed\<close> or \<open>deployed\<close>.
\<close>

definition awaiting :: "component \<Rightarrow> bool" where
  "awaiting c =
     (supplied c \<and> isWorking (current c) \<and> deployedBoardAPI (current c) = None \<and>
      boardState (current c) = None \<and>
      (boardDeployment (current c) = None \<or> boardDeployment (current c) = Some InProgress))"

fun settles :: "event \<Rightarrow> bool" where
  "settles (DeploymentEmits InProgress) = False"
| "settles (DeploymentEmits d) = True"
| "settles e = False"

section \<open>What the two patterns accept\<close>

lemma exactly_eq:
  "exactly a n s = (if n \<le> length s \<and> list_all (atom_ok a) (take n s) then Some (drop n s) else None)"
  by (induction a n s rule: exactly.induct) auto

lemma star_pick:
  "concat (map (\<lambda>r. if length r = n \<and> P r then [f r] else []) (star a s)) =
     (if n \<le> length s \<and> P (drop (length s - n) s) \<and> list_all (atom_ok a) (take (length s - n) s)
      then [f (drop (length s - n) s)] else [])"
proof (induction s)
  case Nil
  show ?case by simp
next
  case (Cons c s)
  note IH = Cons.IH
  consider (eq) "n = Suc (length s)" | (le) "n \<le> length s" | (gt) "Suc (length s) < n"
    by linarith
  then show ?case
  proof cases
    case eq
    then show ?thesis using IH by (cases "atom_ok a c") simp_all
  next
    case le
    then have "Suc (length s) - n = Suc (length s - n)" by simp
    then show ?thesis using le IH by (cases "atom_ok a c") simp_all
  next
    case gt
    then show ?thesis using IH by (cases "atom_ok a c") simp_all
  qed
qed

lemma step_group_times_eol:
  "step (Seq (Group (Times n a)) Eol) (i, r, g) =
     (if length r = n \<and> list_all (atom_ok a) r then [(i + n, [], g @ [r])] else [])"
  by (auto simp: exactly_eq)

lemma step_star_group_eol:
  "step (Seq (Star a) (Seq (Group (Times n b)) Eol)) (i, u, g) =
     (if n \<le> length u \<and> list_all (atom_ok b) (drop (length u - n) u) \<and>
         list_all (atom_ok a) (take (length u - n) u)
      then [(i + length u, [], g @ [drop (length u - n) u])] else [])"
proof -
  have "step (Seq (Star a) (Seq (Group (Times n b)) Eol)) (i, u, g) =
      concat (map (\<lambda>r. if length r = n \<and> list_all (atom_ok b) r
                          then [(i + (length u - length r) + n, [], g @ [r])] else [])
                  (star a u))"
    by (subst step.simps(7), subst step.simps(4)) (simp only: map_map o_def step_group_times_eol)
  also have "\<dots> = (if n \<le> length u \<and> list_all (atom_ok b) (drop (length u - n) u) \<and>
         list_all (atom_ok a) (take (length u - n) u)
      then [(i + (length u - length (drop (length u - n) u)) + n, [], g @ [drop (length u - n) u])] else [])"
    by (rule star_pick)
  finally show ?thesis by auto
qed

lemma step_seq_bol:
  "step (Seq Bol r) (i, s, g) = (if i = 0 then step r (i, s, g) else [])"
  by simp

lemma step_seq_times:
  "step (Seq (Times n a) r) (i, s, g) =
     (if n \<le> length s \<and> list_all (atom_ok a) (take n s) then step r (i + n, drop n s, g) else [])"
  by (simp add: exactly_eq)

lemma step_seq_group_times:
  "step (Seq (Group (Times n a)) r) (i, s, g) =
     (if n \<le> length s \<and> list_all (atom_ok a) (take n s)
      then step r (i + n, drop n s, g @ [take n s]) else [])"
  by (simp add: exactly_eq)

lemma take_14: "take 14 s = take 6 s @ take 8 (drop 6 s)"
  using take_add [of 6 8 s] by simp

lemma step_address_rx_0:
  "step address_rx (0, s, []) =
     (if address_shape s then [(length s, [], [take 8 (drop 6 s), drop (length s - 8) s])] else [])"
proof (cases "22 \<le> length s")
  case True
  then have d: "length s - 14 - 8 = length s - 22" "14 + (length s - 14) = length s"
     "drop (length s - 22) (drop 14 s) = drop (length s - 8) s"
    by simp_all
  show ?thesis
    unfolding address_rx_def step_seq_bol step_seq_times step_seq_group_times step_star_group_eol
    using True by (simp add: d address_shape_def take_14)
next
  case False
  then show ?thesis
    unfolding address_rx_def step_seq_bol step_seq_times step_seq_group_times step_star_group_eol
    by (auto simp: address_shape_def)
qed

lemma match_here_address_rx_0:
  "match_here address_rx 0 s =
     (if address_shape s then Some (length s, [take 8 (drop 6 s), drop (length s - 8) s]) else None)"
  by (simp add: match_here_def step_address_rx_0)

lemma match_here_address_rx_Suc: "match_here address_rx (Suc i) s = None"
  by (simp add: match_here_def address_rx_def)

lemma replace_scan_address_rx_Suc: "replace_scan address_rx t (Suc i) 0 s = s"
  by (induction s arbitrary: i) (simp_all add: match_here_address_rx_Suc)

lemma replace_scan_address_rx_skip: "replace_scan address_rx t (Suc i) (length s) s = []"
  by (induction s arbitrary: i) (simp_all add: match_here_address_rx_Suc)

lemma replace_all_address_rx:
  "replace_all address_rx t s =
     (if address_shape s then expand t [take 8 (drop 6 s), drop (length s - 8) s] else s)"
proof (cases s)
  case Nil
  then show ?thesis
    by (simp add: replace_all_def match_here_address_rx_0 address_shape_def)
next
  case (Cons c s')
  have "replace_scan address_rx t (Suc 0) (length s') s' = []"
    by (rule replace_scan_address_rx_skip)
  then show ?thesis
    unfolding replace_all_def Cons
    by (simp add: match_here_address_rx_0 replace_scan_address_rx_Suc del: replace_scan.simps(2))
qed

lemma expand_address_replacement:
  "expand address_replacement [a, b] = a @ lit ''...'' @ b"
  by (simp add: address_replacement_def)

lemma step_plus_eol:
  "step (Seq (Plus a) Eol) (i, s, g) =
     (if s \<noteq> [] \<and> list_all (atom_ok a) s then [(i + length s, [], g)] else [])"
proof (cases s)
  case Nil
  then show ?thesis by simp
next
  case (Cons c u)
  have "step (Seq (Plus a) Eol) (i, c # u, g) =
      (if atom_ok a c
       then concat (map (\<lambda>r. if length r = 0 \<and> True
                              then [(i + (Suc (length u) - length r), r, g)] else [])
                        (star a u))
       else [])"
    by (simp add: o_def)
  also have "\<dots> = (if atom_ok a c \<and> list_all (atom_ok a) u
                    then [(i + Suc (length u), [], g)] else [])"
    by (simp only: star_pick) simp
  finally show ?thesis using Cons by simp
qed

lemma match_here_goal_rx_0:
  "match_here goal_rx 0 s =
     (if s \<noteq> [] \<and> list_all (atom_ok Digit) s then Some (length s, []) else None)"
  unfolding match_here_def goal_rx_def step_seq_bol step_plus_eol by simp

lemma match_here_goal_rx_Suc: "match_here goal_rx (Suc i) s = None"
  by (simp add: match_here_def goal_rx_def)

lemma regex_test_goal_rx:
  "regex_test goal_rx s = (s \<noteq> [] \<and> list_all (atom_ok Digit) s)"
proof -
  have "regex_test goal_rx s = (match_here goal_rx 0 s \<noteq> None)"
  proof
    assume "regex_test goal_rx s"
    then obtain i where i: "match_here goal_rx i (drop i s) \<noteq> None"
      unfolding regex_test_def list_ex_iff by blast
    then show "match_here goal_rx 0 s \<noteq> None"
      by (cases i) (simp_all add: match_here_goal_rx_Suc)
  next
    assume "match_here goal_rx 0 s \<noteq> None"
    then have "match_here goal_rx 0 (drop 0 s) \<noteq> None" by simp
    moreover have "0 \<in> set [0..<Suc (length s)]" by simp
    ultimately show "regex_test goal_rx s"
      unfolding regex_test_def list_ex_iff by blast
  qed
  then show ?thesis by (simp add: match_here_goal_rx_0)
qed

lemma hex_is_dot: "atom_ok Hex c \<Longrightarrow> atom_ok Dot c"
  by auto

lemma address_shape_hex:
  assumes "22 \<le> length a" and "list_all (atom_ok Hex) a"
  shows "address_shape a"
proof -
  have h: "\<And>c. c \<in> set a \<Longrightarrow> atom_ok Hex c"
    using assms(2) by (simp add: list_all_iff)
  have "list_all (atom_ok Hex) (take 14 a)"
    unfolding list_all_iff using h in_set_takeD by fast
  moreover have "list_all (atom_ok Hex) (drop (length a - 8) a)"
    unfolding list_all_iff using h in_set_dropD by fast
  moreover have "list_all (atom_ok Dot) (take (length a - 22) (drop 14 a))"
    unfolding list_all_iff using h hex_is_dot in_set_takeD in_set_dropD by fast
  ultimately show ?thesis using assms(1) by (simp add: address_shape_def)
qed

section \<open>The short form of a contract address\<close>

text \<open>
  C4, as the code has it: for every contract address of at least 22 hexadecimal digits,
  the displayed text is \<open>0x\<close>, then the 8 digits that follow the first 6, then \<open>...\<close>,
  then the last 8 digits. (The pattern needs 6 + 8 + 8 digits; 14 are not enough.)
\<close>

theorem short_format_of_hex_address:
  assumes "22 \<le> length a" and "list_all (atom_ok Hex) a"
  shows "toShortFormatContractAddress (Some a) =
           Some (lit ''0x'' @ take 8 (drop 6 a) @ lit ''...'' @ drop (length a - 8) a)"
proof -
  have "address_shape a" using assms by (rule address_shape_hex)
  moreover have "a \<noteq> []" using assms(1) by auto
  ultimately show ?thesis
    by (simp add: toShortFormatContractAddress_def replace_all_address_rx expand_address_replacement)
qed

theorem short_format_of_hex_address_witness:
  "22 \<le> length (lit ''0123456789abcdef012345'') \<and>
   list_all (atom_ok Hex) (lit ''0123456789abcdef012345'') \<and>
   toShortFormatContractAddress (Some (lit ''0123456789abcdef012345'')) =
     Some (lit ''0x6789abcd...ef012345'')"
proof -
  have l: "22 \<le> length (lit ''0123456789abcdef012345'')" by (simp add: lit_def)
  have h: "list_all (atom_ok Hex) (lit ''0123456789abcdef012345'')" by (simp add: lit_def)
  show ?thesis using l h short_format_of_hex_address [OF l h] by (simp add: lit_def)
qed

text \<open>
  An address of exactly 14 hexadecimal digits is not shortened: the pattern does not
  match it, and the whole address follows \<open>0x\<close>.
\<close>

theorem short_format_14_hex_counterexample:
  "length (lit ''0123456789abcd'') = 14 \<and>
   list_all (atom_ok Hex) (lit ''0123456789abcd'') \<and>
   toShortFormatContractAddress (Some (lit ''0123456789abcd'')) = Some (lit ''0x0123456789abcd'') \<and>
   toShortFormatContractAddress (Some (lit ''0123456789abcd'')) \<noteq>
     Some (lit ''0x'' @ take 8 (drop 6 (lit ''0123456789abcd'')) @ lit ''...'' @
           drop (length (lit ''0123456789abcd'') - 8) (lit ''0123456789abcd''))"
  by (simp add: toShortFormatContractAddress_def replace_all_address_rx address_shape_def lit_def)

text \<open>
  C10, as the code has it: for every address that is not empty and does not have the
  shape the pattern accepts (14 hexadecimal digits, any code units but line terminators,
  8 hexadecimal digits), the displayed text is \<open>0x\<close> followed by the whole address.
\<close>

theorem short_format_of_other_address:
  assumes "a \<noteq> []" and "\<not> address_shape a"
  shows "toShortFormatContractAddress (Some a) = Some (lit ''0x'' @ a)"
  using assms by (simp add: toShortFormatContractAddress_def replace_all_address_rx)

theorem short_format_of_other_address_witness:
  "lit ''0123456789abcd'' \<noteq> [] \<and> \<not> address_shape (lit ''0123456789abcd'') \<and>
   toShortFormatContractAddress (Some (lit ''0123456789abcd'')) = Some (lit ''0x0123456789abcd'')"
proof -
  have n: "lit ''0123456789abcd'' \<noteq> []" by (simp add: lit_def)
  have s: "\<not> address_shape (lit ''0123456789abcd'')" by (simp add: lit_def address_shape_def)
  show ?thesis using n s short_format_of_other_address [OF n s] by (simp add: lit_def)
qed

text \<open>
  Between the first 14 and the last 8 hexadecimal digits the pattern accepts anything
  but a line terminator, so an address that is not made of hexadecimal digits alone can
  be shortened all the same. The empty address is falsy and yields no text at all.
\<close>

theorem short_format_non_hex_counterexample:
  "\<not> list_all (atom_ok Hex) (lit ''aaaaaabbbbbbbbzzcccccccc'') \<and>
   toShortFormatContractAddress (Some (lit ''aaaaaabbbbbbbbzzcccccccc'')) =
     Some (lit ''0xbbbbbbbb...cccccccc'') \<and>
   toShortFormatContractAddress (Some (lit ''aaaaaabbbbbbbbzzcccccccc'')) \<noteq>
     Some (lit ''0x'' @ lit ''aaaaaabbbbbbbbzzcccccccc'')"
  by (simp add: toShortFormatContractAddress_def replace_all_address_rx address_shape_def
        expand_address_replacement lit_def)

lemma short_format_of_empty_address:
  "toShortFormatContractAddress (Some []) = None \<and>
   toShortFormatContractAddress None = None"
  by (simp add: toShortFormatContractAddress_def)

section \<open>Traces and renders\<close>

lemma run_Nil: "run [] h = h"
  by (simp add: run_def)

lemma run_Cons: "run (e # es) h = run es (apply_effect e h)"
  by (simp add: run_def)

lemma run_append: "run (es @ fs) h = run fs (run es h)"
  by (simp add: run_def)

lemma current_fire: "current (fire e c) = run (effects_of e c) (current c)"
  by (simp add: fire_def rerender_def)

lemma supplied_fire: "supplied (fire e c) = supplied c"
  by (simp add: fire_def rerender_def)

lemma calls_append: "calls (es @ fs) = calls es @ calls fs"
  by (induction es rule: calls.induct) simp_all

lemma onSendToken_calls_with_flag:
  "calls_with_flag w (onSendToken scope out) = map (\<lambda>k. (k, w)) (calls (onSendToken scope out))"
  by (simp add: onSendToken_def split: option.splits sum.splits)

text \<open>
  A change of the title or of the goal leaves the memoized \<open>onPostMessage\<close> as it is;
  a change of the message makes a new closure over the new render.
\<close>

lemma postScope_TitleChange: "postScope (fire (TitleChange v) c) = postScope c"
  by (simp add: fire_def rerender_def run_def)

lemma postScope_GoalChange: "postScope (fire (GoalChange v) c) = postScope c"
  by (simp add: fire_def rerender_def run_def)

lemma postScope_MessageChange:
  "messagePrompt (current c) \<noteq> Some v \<Longrightarrow>
     postScope (fire (MessageChange v) c) = current (fire (MessageChange v) c)"
  by (simp add: fire_def rerender_def run_def)

section \<open>The working flag around a contribution\<close>

text \<open>
  \<open>onSendToken\<close> lowers the working flag on every path and never raises it, so each of
  its calls is made under the flag the component had before. \<open>onDeleteMessage\<close> raises
  the flag before its call, as \<open>onPostMessage\<close> does before \<open>post\<close>.
\<close>

lemma onSendToken_never_raises_flag: "SetIsWorking True \<notin> set (onSendToken scope out)"
  by (simp add: onSendToken_def split: option.splits sum.splits)

lemma onSendToken_ends_not_working: "\<not> isWorking (run (onSendToken scope out) h)"
  by (simp add: onSendToken_def run_append) (simp add: run_def)

lemma onDeleteMessage_calls_with_flag:
  "calls_with_flag w (onDeleteMessage scope r) = map (\<lambda>k. (k, True)) (calls (onDeleteMessage scope r))"
  by (simp add: onDeleteMessage_def split: option.splits sum.splits)

text \<open>
  C1 says that the working flag is true for the duration of the contribution call. At
  the run below (a board is deployed, its state is vacant, a goal is typed, the button is
  clicked and every call succeeds) the flag is false when the click arrives and is false
  at each of the three calls, \<open>contributeWithWallet\<close> among them.
\<close>

theorem send_token_flag_stays_false:
  "(case fire_all
           [DeploymentEmits (Deployed \<lparr>api_id = 1, deployedContractAddress = lit ''00''\<rparr>),
            StateEmits \<lparr>state = VACANT, title = [], goal = 0, message = [], isOwner = False\<rparr>,
            GoalChange (lit ''5'')]
           (mount True) of
      None \<Rightarrow> False
    | Some c \<Rightarrow>
        possible (ClickSend \<lparr>build_result = Inr 7, start_result = Inr (),
                             contributeWithWallet_result = Inr ()\<rparr>) c \<and>
        \<not> isWorking (current c) \<and>
        calls_with_flag (isWorking (current c))
          (effects_of (ClickSend \<lparr>build_result = Inr 7, start_result = Inr (),
                                  contributeWithWallet_result = Inr ()\<rparr>) c) =
          [(WalletBuild testnet_config, False), (WalletStart 7, False),
           (ContributeWithWallet \<lparr>api_id = 1, deployedContractAddress = lit ''00''\<rparr> 7 1, False)])"
  by (simp add: fire_def rerender_def mount_def Let_def run_def onBoardDeployment_def
        actions_rendered_def text_fields_rendered_def send_tokens_disabled_def state_is_def
        falsy_def onSendToken_def lit_def)

section \<open>The take-down button\<close>

text \<open>
  C2, as the code has it: the take-down action is enabled if and only if the action
  buttons are rendered and the latest board state is either absent or occupied with the
  owner flag true; it is disabled when the board state is vacant, or occupied with the
  owner flag false.
\<close>

theorem take_down_enabled_iff:
  "take_down_enabled s h \<longleftrightarrow>
     actions_rendered s h \<and>
     (case boardState h of None \<Rightarrow> True | Some b \<Rightarrow> state b = OCCUPIED \<and> isOwner b)"
proof (cases "boardState h")
  case None
  then show ?thesis by (simp add: take_down_enabled_def take_down_disabled_def state_is_def)
next
  case (Some b)
  then show ?thesis
    by (cases "state b") (simp_all add: take_down_enabled_def take_down_disabled_def state_is_def)
qed

theorem take_down_enabled_iff_witness:
  "take_down_enabled True
     \<lparr>boardDeployment = None, deployedBoardAPI = Some \<lparr>api_id = 1, deployedContractAddress = lit ''00''\<rparr>,
      errorMessage = None,
      boardState = Some \<lparr>state = OCCUPIED, title = lit ''T'', goal = 100, message = lit ''M'', isOwner = True\<rparr>,
      messagePrompt = None, titlePrompt = None, goalPrompt = None, isWorking = False\<rparr> \<and>
   \<not> take_down_enabled True
     \<lparr>boardDeployment = None, deployedBoardAPI = Some \<lparr>api_id = 1, deployedContractAddress = lit ''00''\<rparr>,
      errorMessage = None,
      boardState = Some \<lparr>state = OCCUPIED, title = lit ''T'', goal = 100, message = lit ''M'', isOwner = False\<rparr>,
      messagePrompt = None, titlePrompt = None, goalPrompt = None, isWorking = False\<rparr>"
  by (simp add: take_down_enabled_iff actions_rendered_def)

text \<open>
  After the \<open>deployed\<close> emission and before the first board state, the buttons are
  rendered and \<open>boardState?.state\<close> is \<open>undefined\<close>, which is neither \<open>VACANT\<close> nor
  \<open>OCCUPIED\<close>: the take-down button is enabled.
\<close>

theorem take_down_without_snapshot_counterexample:
  "possible (DeploymentEmits (Deployed \<lparr>api_id = 1, deployedContractAddress = lit ''00''\<rparr>)) (mount True) \<and>
   boardState (current (fire (DeploymentEmits (Deployed \<lparr>api_id = 1, deployedContractAddress = lit ''00''\<rparr>)) (mount True))) = None \<and>
   take_down_enabled True (current (fire (DeploymentEmits (Deployed \<lparr>api_id = 1, deployedContractAddress = lit ''00''\<rparr>)) (mount True)))"
  by (simp add: current_fire mount_def Let_def onBoardDeployment_def run_def take_down_enabled_def
        take_down_disabled_def state_is_def actions_rendered_def)

section \<open>The error message\<close>

lemma errorMessage_run:
  "errorMessage (run es h) = errorMessage h \<or>
   (\<exists>m. SetErrorMessage m \<in> set es \<and> errorMessage (run es h) = Some m)"
proof (induction es arbitrary: h)
  case Nil
  show ?case by (simp add: run_Nil)
next
  case (Cons e es)
  from Cons [of "apply_effect e h"] show ?case
    by (cases e) (auto simp: run_Cons)
qed

lemma errorMessage_deployed:
  "errorMessage (current (fire (DeploymentEmits (Deployed a)) c)) = errorMessage (current c)"
  by (simp add: current_fire onBoardDeployment_def run_def)

text \<open>
  C3, as the code has it: nothing clears the error message. A \<open>deployed\<close> emission
  leaves it as it is; any event leaves it as it is or sets it to the string that one of
  the event's \<open>setErrorMessage\<close> calls passes; so once it is set it stays set, whatever
  the user does.
\<close>

theorem error_message_never_cleared:
  "errorMessage (current (fire (DeploymentEmits (Deployed a)) c)) = errorMessage (current c) \<and>
   (errorMessage (current (fire e c)) = errorMessage (current c) \<or>
    (\<exists>m. SetErrorMessage m \<in> set (effects_of e c) \<and>
         errorMessage (current (fire e c)) = Some m)) \<and>
   (errorMessage (current c) \<noteq> None \<longrightarrow> errorMessage (current (fire e c)) \<noteq> None)"
proof -
  have a: "errorMessage (current (fire e c)) = errorMessage (current c) \<or>
    (\<exists>m. SetErrorMessage m \<in> set (effects_of e c) \<and>
         errorMessage (current (fire e c)) = Some m)"
    unfolding current_fire by (rule errorMessage_run)
  then have "errorMessage (current c) \<noteq> None \<longrightarrow> errorMessage (current (fire e c)) \<noteq> None"
    by auto
  with a errorMessage_deployed show ?thesis by blast
qed

theorem error_message_never_cleared_witness:
  "errorMessage (current (fire (DeploymentEmits (Failed (lit ''boom''))) (mount True))) \<noteq> None \<and>
   errorMessage (current (fire (ClickDelete (Inr ()))
      (fire (DeploymentEmits (Failed (lit ''boom''))) (mount True)))) \<noteq> None"
proof -
  have h: "errorMessage (current (fire (DeploymentEmits (Failed (lit ''boom''))) (mount True))) \<noteq> None"
    by (simp add: current_fire mount_def Let_def onBoardDeployment_def run_def)
  from error_message_never_cleared
    [of undefined "fire (DeploymentEmits (Failed (lit ''boom''))) (mount True)" "ClickDelete (Inr ())"]
  have "errorMessage (current (fire (DeploymentEmits (Failed (lit ''boom''))) (mount True))) \<noteq> None \<longrightarrow>
        errorMessage (current (fire (ClickDelete (Inr ()))
          (fire (DeploymentEmits (Failed (lit ''boom''))) (mount True)))) \<noteq> None"
    by blast
  with h show ?thesis by blast
qed

text \<open>
  A \<open>failed\<close> emission sets the message; the \<open>deployed\<close> emission after it does not
  clear it.
\<close>

theorem error_message_after_deployed_counterexample:
  "errorMessage (current (fire (DeploymentEmits (Failed (lit ''boom''))) (mount True))) = Some (lit ''boom'') \<and>
   errorMessage (current
      (fire (DeploymentEmits (Deployed \<lparr>api_id = 1, deployedContractAddress = lit ''00''\<rparr>))
         (fire (DeploymentEmits (Failed (lit ''boom''))) (mount True)))) = Some (lit ''boom'')"
  by (simp add: current_fire mount_def Let_def onBoardDeployment_def run_def lit_def)

section \<open>The deployment stream\<close>

lemma unexpected_error_not_empty: "unexpected_error \<noteq> []"
  by (simp add: unexpected_error_def lit_def)

text \<open>
  C6: when the deployment stream emits \<open>failed\<close>, the error message is the message of
  the failure if that is not empty, and the fallback text otherwise; it is never the
  empty string, and the error overlay is open.
\<close>

theorem failed_deployment_error_text:
  assumes "possible (DeploymentEmits (Failed m)) c"
  shows "errorMessage (current (fire (DeploymentEmits (Failed m)) c)) =
           Some (if m = [] then unexpected_error else m) \<and>
         errorMessage (current (fire (DeploymentEmits (Failed m)) c)) \<noteq> Some [] \<and>
         error_overlay_open (supplied (fire (DeploymentEmits (Failed m)) c))
           (current (fire (DeploymentEmits (Failed m)) c))"
  using assms unexpected_error_not_empty
  by (simp add: current_fire supplied_fire onBoardDeployment_def run_def error_overlay_open_def falsy_def)

theorem failed_deployment_error_text_witness:
  "possible (DeploymentEmits (Failed [])) (mount True) \<and>
   errorMessage (current (fire (DeploymentEmits (Failed [])) (mount True))) =
     Some (lit ''Encountered an unexpected error.'')"
proof -
  have h: "possible (DeploymentEmits (Failed [])) (mount True)"
    by (simp add: mount_def Let_def)
  show ?thesis
    using h failed_deployment_error_text [OF h] by (simp add: unexpected_error_def)
qed

lemma awaiting_mount: "awaiting (mount True)"
  by (simp add: awaiting_def mount_def Let_def)

lemma awaiting_fire:
  assumes "awaiting c" and "possible e c" and "\<not> settles e"
  shows "awaiting (fire e c)"
proof (cases e)
  case (DeploymentEmits d)
  with assms show ?thesis
    by (cases d) (simp_all add: awaiting_def current_fire supplied_fire onBoardDeployment_def run_def)
next
  case (StateEmits b)
  with assms show ?thesis by (auto simp: awaiting_def)
qed (use assms in \<open>simp_all add: awaiting_def text_fields_rendered_def actions_rendered_def
      take_down_enabled_def\<close>)

lemma awaiting_fire_all:
  "awaiting c \<Longrightarrow> fire_all es c = Some c' \<Longrightarrow> \<not> list_ex settles es \<Longrightarrow> awaiting c'"
proof (induction es arbitrary: c)
  case Nil
  then show ?case by simp
next
  case (Cons e es)
  then show ?case by (auto split: if_splits intro: awaiting_fire)
qed

text \<open>
  C7: a component mounted with a deployment stream shows the working indicator as long
  as no \<open>failed\<close> or \<open>deployed\<close> emission has arrived, so while the latest status is
  \<open>in-progress\<close>, and the indicator is hidden right after the \<open>deployed\<close> emission.
\<close>

theorem working_indicator_until_deployed:
  assumes "fire_all es (mount True) = Some c" and "\<not> list_ex settles es"
  shows "working_indicator_visible (supplied c) (current c) \<and>
         \<not> working_indicator_visible (supplied (fire (DeploymentEmits (Deployed a)) c))
              (current (fire (DeploymentEmits (Deployed a)) c))"
proof -
  have "awaiting c" using awaiting_mount assms by (rule awaiting_fire_all)
  then have "working_indicator_visible (supplied c) (current c)"
    by (simp add: awaiting_def working_indicator_visible_def)
  moreover have "\<not> isWorking (current (fire (DeploymentEmits (Deployed a)) c))"
    by (simp add: current_fire onBoardDeployment_def run_def)
  ultimately show ?thesis by (simp add: working_indicator_visible_def)
qed

theorem working_indicator_until_deployed_witness:
  "fire_all [DeploymentEmits InProgress] (mount True) =
     Some (fire (DeploymentEmits InProgress) (mount True)) \<and>
   \<not> list_ex settles [DeploymentEmits InProgress] \<and>
   working_indicator_visible True (current (fire (DeploymentEmits InProgress) (mount True))) \<and>
   \<not> working_indicator_visible True
        (current (fire (DeploymentEmits (Deployed \<lparr>api_id = 1, deployedContractAddress = lit ''00''\<rparr>))
           (fire (DeploymentEmits InProgress) (mount True))))"
proof -
  have r: "fire_all [DeploymentEmits InProgress] (mount True) =
             Some (fire (DeploymentEmits InProgress) (mount True))"
    by (simp add: mount_def Let_def)
  have n: "\<not> list_ex settles [DeploymentEmits InProgress]" by simp
  have s: "supplied (mount True)" by (simp add: mount_def Let_def)
  show ?thesis
    using r n s working_indicator_until_deployed [OF r n, of "\<lparr>api_id = 1, deployedContractAddress = lit ''00''\<rparr>"]
    by (simp add: supplied_fire)
qed

section \<open>Posting a message\<close>

text \<open>
  The two checks of \<open>onPostMessage\<close>, on the values the handler reads: when one of
  the three is empty, the trace is the one \<open>setErrorMessage\<close> call with the
  fill-in-all-fields text; when all three are filled in and the trimmed goal does not
  match \<open>^\d+$\<close>, it is the one call with the goal-validation text.
\<close>

lemma onPostMessage_checks:
  "(falsy (titlePrompt scope) \<or> falsy (messagePrompt scope) \<or> falsy (goalPrompt scope) \<longrightarrow>
      onPostMessage scope out = [SetErrorMessage fill_in_all_fields] \<and>
      calls (onPostMessage scope out) = [] \<and>
      errorMessage (run (onPostMessage scope out) h) = Some fill_in_all_fields) \<and>
   (\<not> falsy (titlePrompt scope) \<and> \<not> falsy (messagePrompt scope) \<and>
    goalPrompt scope = Some g \<and> g \<noteq> [] \<and> \<not> regex_test goal_rx (trim g) \<longrightarrow>
      onPostMessage scope out = [SetErrorMessage valid_goal_message] \<and>
      calls (onPostMessage scope out) = [] \<and>
      errorMessage (run (onPostMessage scope out) h) = Some valid_goal_message)"
  by (simp add: onPostMessage_def falsy_def run_def)

lemma onPostMessage_checks_examples:
  "onPostMessage
     \<lparr>boardDeployment = None, deployedBoardAPI = None, errorMessage = None, boardState = None,
      messagePrompt = Some (lit ''M''), titlePrompt = None, goalPrompt = Some (lit ''5''),
      isWorking = False\<rparr>
     \<lparr>getWalletAddress_result = Inr (lit ''w''), post_result = Inr ()\<rparr> =
     [SetErrorMessage fill_in_all_fields] \<and>
   onPostMessage
     \<lparr>boardDeployment = None, deployedBoardAPI = None, errorMessage = None, boardState = None,
      messagePrompt = Some (lit ''M''), titlePrompt = Some (lit ''T''), goalPrompt = Some (lit '' 1.5''),
      isWorking = False\<rparr>
     \<lparr>getWalletAddress_result = Inr (lit ''w''), post_result = Inr ()\<rparr> =
     [SetErrorMessage valid_goal_message]"
  using
    onPostMessage_checks [of
      "\<lparr>boardDeployment = None, deployedBoardAPI = None, errorMessage = None, boardState = None,
      messagePrompt = Some (lit ''M''), titlePrompt = None, goalPrompt = Some (lit ''5''),
      isWorking = False\<rparr>"
      "\<lparr>getWalletAddress_result = Inr (lit ''w''), post_result = Inr ()\<rparr>" undefined "[]"]
    onPostMessage_checks [of
      "\<lparr>boardDeployment = None, deployedBoardAPI = None, errorMessage = None, boardState = None,
      messagePrompt = Some (lit ''M''), titlePrompt = Some (lit ''T''), goalPrompt = Some (lit '' 1.5''),
      isWorking = False\<rparr>"
      "\<lparr>getWalletAddress_result = Inr (lit ''w''), post_result = Inr ()\<rparr>" undefined "lit '' 1.5''"]
  by (simp add: falsy_def regex_test_goal_rx trim_def is_space_def lit_def)

text \<open>
  The check for empty fields comes first: with an empty title and the goal \<open>abc\<close> the
  message is the fill-in-all-fields text, not the goal-validation text.
\<close>

lemma onPostMessage_empty_field_first:
  "\<not> regex_test goal_rx (trim (lit ''abc'')) \<and>
   onPostMessage
     \<lparr>boardDeployment = None, deployedBoardAPI = None, errorMessage = None, boardState = None,
      messagePrompt = Some (lit ''M''), titlePrompt = Some [], goalPrompt = Some (lit ''abc''),
      isWorking = False\<rparr>
     \<lparr>getWalletAddress_result = Inr (lit ''w''), post_result = Inr ()\<rparr> =
     [SetErrorMessage fill_in_all_fields] \<and>
   fill_in_all_fields \<noteq> valid_goal_message"
  by (simp add: onPostMessage_def falsy_def regex_test_goal_rx trim_def is_space_def lit_def
        fill_in_all_fields_def valid_goal_message_def)

text \<open>
  C5 says that a submission with an empty title, message or goal, or with a goal that
  does not match \<open>^\d+$\<close> after trimming, sets the error message and reaches no
  collaborator. The handler reads \<open>titlePrompt\<close> and \<open>goalPrompt\<close>, but the
  dependencies of its \<open>useCallback\<close> (line 116) leave both out, so it checks the title
  and the goal of the render in which the message last changed. In the two runs below a
  board is deployed, its state is vacant, and the title \<open>T\<close>, the goal \<open>5\<close> and the
  message \<open>M\<close> are typed in that order. In the first the title is then emptied, in the
  second the goal is then changed to \<open>-5\<close>. The click on the post button sets no error
  message and calls \<open>getWalletAddress\<close> and \<open>post\<close> with the title \<open>T\<close> and the goal 5.
\<close>

theorem post_submission_reads_stale_fields:
  "(case fire_all
           [DeploymentEmits (Deployed \<lparr>api_id = 1, deployedContractAddress = lit ''00''\<rparr>),
            StateEmits \<lparr>state = VACANT, title = [], goal = 0, message = [], isOwner = False\<rparr>,
            TitleChange (lit ''T''), GoalChange (lit ''5''), MessageChange (lit ''M''),
            TitleChange []]
           (mount True) of
      None \<Rightarrow> False
    | Some c \<Rightarrow>
        titlePrompt (current c) = Some [] \<and>
        possible (ClickPost \<lparr>getWalletAddress_result = Inr (lit ''w''), post_result = Inr ()\<rparr>) c \<and>
        calls (effects_of
                 (ClickPost \<lparr>getWalletAddress_result = Inr (lit ''w''), post_result = Inr ()\<rparr>) c) =
          [GetWalletAddress, Post \<lparr>api_id = 1, deployedContractAddress = lit ''00''\<rparr> (lit ''T'') (lit ''M'') 5 (lit ''w'')] \<and>
        errorMessage (current (fire
           (ClickPost \<lparr>getWalletAddress_result = Inr (lit ''w''), post_result = Inr ()\<rparr>) c)) =
          None) \<and>
   (case fire_all
           [DeploymentEmits (Deployed \<lparr>api_id = 1, deployedContractAddress = lit ''00''\<rparr>),
            StateEmits \<lparr>state = VACANT, title = [], goal = 0, message = [], isOwner = False\<rparr>,
            TitleChange (lit ''T''), GoalChange (lit ''5''), MessageChange (lit ''M''),
            GoalChange (lit ''-5'')]
           (mount True) of
      None \<Rightarrow> False
    | Some c \<Rightarrow>
        goalPrompt (current c) = Some (lit ''-5'') \<and>
        regex_test goal_rx (trim (lit ''-5'')) = False \<and>
        possible (ClickPost \<lparr>getWalletAddress_result = Inr (lit ''w''), post_result = Inr ()\<rparr>) c \<and>
        calls (effects_of
                 (ClickPost \<lparr>getWalletAddress_result = Inr (lit ''w''), post_result = Inr ()\<rparr>) c) =
          [GetWalletAddress, Post \<lparr>api_id = 1, deployedContractAddress = lit ''00''\<rparr> (lit ''T'') (lit ''M'') 5 (lit ''w'')] \<and>
        errorMessage (current (fire
           (ClickPost \<lparr>getWalletAddress_result = Inr (lit ''w''), post_result = Inr ()\<rparr>) c)) =
          None)"
  by (simp add: fire_def rerender_def mount_def Let_def run_def onBoardDeployment_def
        actions_rendered_def text_fields_rendered_def post_message_disabled_def state_is_def
        falsy_def onPostMessage_def regex_test_goal_rx trim_def is_space_def BigInt_def lit_def)

text \<open>
  The other way round: when the message is typed first, the handler still sees the empty
  title and goal of that render, and a submission with all three fields filled in is
  turned down with the fill-in-all-fields text.
\<close>

lemma post_rejects_filled_fields:
  "(case fire_all
           [DeploymentEmits (Deployed \<lparr>api_id = 1, deployedContractAddress = lit ''00''\<rparr>),
            StateEmits \<lparr>state = VACANT, title = [], goal = 0, message = [], isOwner = False\<rparr>,
            MessageChange (lit ''M''), TitleChange (lit ''T''), GoalChange (lit ''5'')]
           (mount True) of
      None \<Rightarrow> False
    | Some c \<Rightarrow>
        titlePrompt (current c) = Some (lit ''T'') \<and>
        goalPrompt (current c) = Some (lit ''5'') \<and>
        messagePrompt (current c) = Some (lit ''M'') \<and>
        possible (ClickPost \<lparr>getWalletAddress_result = Inr (lit ''w''), post_result = Inr ()\<rparr>) c \<and>
        effects_of (ClickPost \<lparr>getWalletAddress_result = Inr (lit ''w''), post_result = Inr ()\<rparr>) c =
          [SetErrorMessage fill_in_all_fields])"
  by (simp add: fire_def rerender_def mount_def Let_def run_def onBoardDeployment_def
        actions_rendered_def text_fields_rendered_def post_message_disabled_def state_is_def
        falsy_def onPostMessage_def lit_def)

text \<open>
  C9: a submission that passes both checks while there is no API handle calls no
  collaborator and sets no error message; all it does is lower the working flag.
\<close>

theorem post_without_api_is_silent:
  assumes "\<not> falsy (titlePrompt scope)" and "\<not> falsy (messagePrompt scope)"
    and "goalPrompt scope = Some g" and "g \<noteq> []"
    and "trim g \<noteq> []" and "regex_test goal_rx (trim g)"
    and "deployedBoardAPI scope = None"
  shows "onPostMessage scope out = [SetIsWorking False] \<and>
         calls (onPostMessage scope out) = [] \<and>
         run (onPostMessage scope out) h = h\<lparr>isWorking := False\<rparr>"
  using assms by (simp add: onPostMessage_def falsy_def run_def)

theorem post_without_api_is_silent_witness:
  "onPostMessage
     \<lparr>boardDeployment = None, deployedBoardAPI = None, errorMessage = None, boardState = None,
      messagePrompt = Some (lit ''M''), titlePrompt = Some (lit ''T''), goalPrompt = Some (lit '' 100 ''),
      isWorking = True\<rparr>
     \<lparr>getWalletAddress_result = Inr (lit ''w''), post_result = Inr ()\<rparr> = [SetIsWorking False] \<and>
   trim (lit '' 100 '') = lit ''100'' \<and> regex_test goal_rx (lit ''100'')"
proof -
  have t: "trim (lit '' 100 '') = lit ''100''"
    by (simp add: trim_def is_space_def lit_def)
  have g: "regex_test goal_rx (trim (lit '' 100 ''))"
    unfolding t by (simp add: regex_test_goal_rx lit_def)
  have n: "trim (lit '' 100 '') \<noteq> []" unfolding t by (simp add: lit_def)
  have "onPostMessage
     \<lparr>boardDeployment = None, deployedBoardAPI = None, errorMessage = None, boardState = None,
      messagePrompt = Some (lit ''M''), titlePrompt = Some (lit ''T''), goalPrompt = Some (lit '' 100 ''),
      isWorking = True\<rparr>
     \<lparr>getWalletAddress_result = Inr (lit ''w''), post_result = Inr ()\<rparr> = [SetIsWorking False]"
    using post_without_api_is_silent [where g = "lit '' 100 ''" and h = undefined, OF _ _ _ _ n g]
    by (simp add: falsy_def lit_def)
  with t g show ?thesis by simp
qed

section \<open>Contributing tokens\<close>

lemma possible_send_has_api:
  "possible (ClickSend out) c \<Longrightarrow> \<exists>api. deployedBoardAPI (current c) = Some api"
  by (auto simp: actions_rendered_def)

text \<open>
  C8, as the code has it: every invocation of \<open>onSendToken\<close> with an API handle calls
  \<open>WalletBuilder.build\<close> with the fixed configuration; if the build resolves, it starts
  the wallet this build returned and, if \<open>start\<close> returns, calls
  \<open>contributeWithWallet\<close> with that wallet and the amount 1; a step that fails ends the
  calls. The component has no state cell for a wallet.
\<close>

theorem send_token_calls:
  assumes "deployedBoardAPI scope = Some api"
  shows "calls (onSendToken scope out) =
           WalletBuild testnet_config #
           (case build_result out of
              Inl e \<Rightarrow> []
            | Inr w \<Rightarrow>
                WalletStart w #
                (case start_result out of
                   Inl e \<Rightarrow> []
                 | Inr u \<Rightarrow> [ContributeWithWallet api w 1]))"
  using assms by (simp add: onSendToken_def calls_append split: sum.splits)

theorem send_token_calls_witness:
  "calls (onSendToken
     \<lparr>boardDeployment = None, deployedBoardAPI = Some \<lparr>api_id = 1, deployedContractAddress = lit ''00''\<rparr>,
      errorMessage = None, boardState = None,
      messagePrompt = None, titlePrompt = None, goalPrompt = Some (lit ''5''),
      isWorking = False\<rparr>
     \<lparr>build_result = Inr 7, start_result = Inr (), contributeWithWallet_result = Inr ()\<rparr>) =
     [WalletBuild testnet_config, WalletStart 7, ContributeWithWallet \<lparr>api_id = 1, deployedContractAddress = lit ''00''\<rparr> 7 1]"
  using send_token_calls [of
     "\<lparr>boardDeployment = None, deployedBoardAPI = Some \<lparr>api_id = 1, deployedContractAddress = lit ''00''\<rparr>,
      errorMessage = None, boardState = None,
      messagePrompt = None, titlePrompt = None, goalPrompt = Some (lit ''5''),
      isWorking = False\<rparr>"
     "\<lparr>api_id = 1, deployedContractAddress = lit ''00''\<rparr>"
     "\<lparr>build_result = Inr 7, start_result = Inr (), contributeWithWallet_result = Inr ()\<rparr>"]
  by simp

text \<open>
  When the build is rejected, no wallet is started and no contribution is made.
\<close>

theorem send_token_build_rejected_counterexample:
  "calls (onSendToken
     \<lparr>boardDeployment = None, deployedBoardAPI = Some \<lparr>api_id = 1, deployedContractAddress = lit ''00''\<rparr>,
      errorMessage = None, boardState = None,
      messagePrompt = None, titlePrompt = None, goalPrompt = Some (lit ''5''),
      isWorking = False\<rparr>
     \<lparr>build_result = Inl (ErrorObject (lit ''offline'')), start_result = Inr (),
      contributeWithWallet_result = Inr ()\<rparr>) = [WalletBuild testnet_config]"
  by (simp add: onSendToken_def)

end
